theory Spec2Isabelle
  imports Main
begin

section \<open>Text\<close>

text \<open>
  A Python \<open>str\<close> is a sequence of Unicode code points, so text is a list of code
  points (natural numbers).  ASCII text is written as an Isabelle string literal and
  converted with \<open>u\<close>; the symbols outside ASCII that the scripts mention are named
  below by their code point.
\<close>

type_synonym str = "nat list"

definition u :: "string \<Rightarrow> str" where
  "u s = map of_char s"

definition squote :: nat where "squote = 39"
definition dquote :: nat where "dquote = 34"
definition newline :: nat where "newline = 10"

text \<open>\<open>sep.join(xs)\<close>\<close>

fun join :: "str \<Rightarrow> str list \<Rightarrow> str" where
  "join sep [] = []"
| "join sep [x] = x"
| "join sep (x # y # ys) = x @ sep @ join sep (y # ys)"

text \<open>\<open>xs[i:]\<close> for a Python integer \<open>i\<close>: a negative start counts from the end, and
  the start is clipped to the list.\<close>

definition slice_from :: "int \<Rightarrow> 'a list \<Rightarrow> 'a list" where
  "slice_from i xs =
     (let n = int (length xs);
          j = (if i < 0 then max 0 (i + n) else min i n)
      in drop (nat j) xs)"

section \<open>list\_tests.py: the remaining-set generator\<close>

text \<open>
  The dataclasses \<open>TestItem\<close> and \<open>TestList\<close>.  The fields \<open>id\<close>, \<open>name\<close>, \<open>file\<close>,
  \<open>line\<close>, \<open>suite\<close> of \<open>TestItem\<close> and \<open>framework\<close>, \<open>total\<close> of \<open>TestList\<close> carry a
  prefix here, because \<open>id\<close> is a constant of HOL and \<open>file\<close>, \<open>framework\<close>, \<open>total\<close>
  are fields of the parser's records as well.
\<close>

record TestItem =
  item_id :: str
  item_name :: str
  item_file :: str
  item_line :: "int option"
  item_suite :: "str option"

record TestList =
  list_framework :: str
  list_total :: int
  tests :: "TestItem list"
  run_single_command :: str
  run_from_command :: str
  bail_command :: str

text \<open>The dictionary that \<open>generate_remaining_tests\<close> returns.\<close>

record Remaining =
  remaining_count :: int
  remaining_tests :: "TestItem list"
  run_remaining_command :: "str option"

definition generate_remaining_tests :: "TestList \<Rightarrow> int \<Rightarrow> Remaining" where
  "generate_remaining_tests test_list failed_index =
     (let remaining = slice_from (failed_index + 1) (tests test_list) in
      if remaining = [] then
        \<lparr>remaining_count = 0, remaining_tests = [], run_remaining_command = None\<rparr>
      else
        let framework = list_framework test_list;
            test_ids = map item_id remaining;
            cmd =
              (if framework \<in> set [u ''jest'', u ''vitest''] then
                 Some (u ''npx '' @ framework @ u '' '' @ join (u '' '') test_ids)
               else if framework = u ''pytest'' then
                 Some (u ''pytest '' @ join (u '' '') test_ids)
               else if framework = u ''go'' then
                 (let pattern = join (u ''|'') test_ids
                  in Some (u ''go test -run '' @ [squote] @ pattern @ [squote] @ u '' ./...''))
               else if framework = u ''playwright'' then
                 Some (u ''npx playwright test '' @ join (u '' '') test_ids)
               else None)
        in \<lparr>remaining_count = int (length remaining), remaining_tests = remaining,
            run_remaining_command = cmd\<rparr>)"

section \<open>The library the parser calls\<close>

subsection \<open>Unicode tables\<close>

text \<open>
  The regular expressions and string methods of Python consult the Unicode character
  database of the interpreter, which is not part of the repository.  Its tables are a
  parameter of the model: \<open>isspace\<close> is the set of \<open>str.isspace\<close>, \<open>\s\<close> and \<open>strip\<close>;
  \<open>isdecimal\<close> is the set of \<open>\d\<close> and \<open>digit_value\<close> the value that \<open>int\<close> and \<open>float\<close>
  give a decimal digit; \<open>lower\<close> is \<open>str.lower\<close>; \<open>caseless p c\<close> says whether the literal
  \<open>p\<close> of a pattern matches the character \<open>c\<close> under \<open>re.IGNORECASE\<close>.
\<close>

record ucd =
  isspace :: "nat \<Rightarrow> bool"
  isdecimal :: "nat \<Rightarrow> bool"
  digit_value :: "nat \<Rightarrow> nat"
  lower :: "str \<Rightarrow> str"
  caseless :: "nat \<Rightarrow> nat \<Rightarrow> bool"

text \<open>
  A concrete table for the closed examples: the whitespace of CPython, the ASCII digits
  and the ASCII letter pairs.  The examples use ASCII text and symbols without case, on
  which every table that extends this one gives the same result.
\<close>

definition ascii_lower :: "nat \<Rightarrow> nat" where
  "ascii_lower c = (if 65 \<le> c \<and> c \<le> 90 then c + 32 else c)"

definition whitespace :: "nat \<Rightarrow> bool" where
  "whitespace c =
     ((9 \<le> c \<and> c \<le> 13) \<or> (28 \<le> c \<and> c \<le> 32) \<or> c = 133 \<or> c = 160 \<or> c = 5760
      \<or> (8192 \<le> c \<and> c \<le> 8202) \<or> c = 8232 \<or> c = 8233 \<or> c = 8239 \<or> c = 8287
      \<or> c = 12288)"

definition ascii_ucd :: ucd where
  "ascii_ucd =
     \<lparr>isspace = whitespace,
      isdecimal = (\<lambda>c. 48 \<le> c \<and> c \<le> 57),
      digit_value = (\<lambda>c. c - 48),
      lower = map ascii_lower,
      caseless = (\<lambda>p c. ascii_lower p = ascii_lower c)\<rparr>"

subsection \<open>String methods\<close>

text \<open>\<open>s.strip()\<close>\<close>

definition strip :: "ucd \<Rightarrow> str \<Rightarrow> str" where
  "strip db s = rev (dropWhile (isspace db) (rev (dropWhile (isspace db) s)))"

text \<open>\<open>s.split(sep)\<close> for a separator of one character: the result is never empty.\<close>

fun split_on :: "nat \<Rightarrow> str \<Rightarrow> str list" where
  "split_on sep [] = [[]]"
| "split_on sep (c # cs) =
     (if c = sep then [] # split_on sep cs
      else (case split_on sep cs of
              [] \<Rightarrow> [[c]]
            | l # ls \<Rightarrow> (c # l) # ls))"

text \<open>\<open>kw in s\<close>\<close>

fun startswith :: "str \<Rightarrow> str \<Rightarrow> bool" where
  "startswith s [] = True"
| "startswith [] (k # ks) = False"
| "startswith (c # cs) (k # ks) = (c = k \<and> startswith cs ks)"

fun contains :: "str \<Rightarrow> str \<Rightarrow> bool" where
  "contains [] kw = (kw = [])"
| "contains (c # cs) kw = (startswith (c # cs) kw \<or> contains cs kw)"

text \<open>
  \<open>int(s)\<close> for a run of decimal digits, the only argument the parser gives it (each
  is a group \<open>(\d+)\<close>), and \<open>str(n)\<close> for a natural number.  Python's integers are
  unbounded; the interpreter's configurable limit on the number of digits that \<open>int\<close>
  converts is not modelled.
\<close>

definition int_str :: "ucd \<Rightarrow> str \<Rightarrow> int" where
  "int_str db s = int (foldl (\<lambda>a c. 10 * a + digit_value db c) 0 s)"

function str_nat :: "nat \<Rightarrow> str" where
  "str_nat n = (if n < 10 then [48 + n] else str_nat (n div 10) @ [48 + n mod 10])"
  by pat_completeness auto
termination
  by (relation "measure (\<lambda>n. n)") auto

declare str_nat.simps [simp del]

definition str_int :: "int \<Rightarrow> str" where
  "str_int i = (if i < 0 then u ''-'' @ str_nat (nat (- i)) else str_nat (nat i))"

subsection \<open>Floating point\<close>

text \<open>
  \<open>int(float(s) * 1000)\<close>.  A finite non-negative binary64 value is \<open>m * 2 ^ p\<close>.
  \<open>round_float n d\<close> is the value nearest to the fraction \<open>n / d\<close>, ties to the even
  significand, with 53 bits of significand, the least exponent \<open>-1074\<close>, and infinity
  from \<open>2 ^ 1024\<close> on.  \<open>float\<close> reads a decimal numeral of digits and at most one point
  (the duration groups are \<open>[\d.]+\<close>, so signs and exponents do not occur) and rounds it
  correctly; it raises \<open>ValueError\<close> on any other text.  \<open>int\<close> truncates, and raises
  \<open>OverflowError\<close> on infinity.
\<close>

datatype error = ValueError | OverflowError

datatype float = Float int int | Infinity

function bit_length :: "int \<Rightarrow> int" where
  "bit_length n = (if n \<le> 0 then 0 else 1 + bit_length (n div 2))"
  by pat_completeness auto
termination
  by (relation "measure nat") auto

declare bit_length.simps [simp del]

definition round_float :: "int \<Rightarrow> int \<Rightarrow> float" where
  "round_float n d =
     (if n = 0 then Float 0 0
      else
        let k = bit_length n - bit_length d;
            e = (if d * 2 ^ nat k \<le> n * 2 ^ nat (- k) then k else k - 1);
            p = max (e - 52) (- 1074);
            num = n * 2 ^ nat (- p);
            den = d * 2 ^ nat p;
            q = num div den;
            r = num mod den;
            m = (if 2 * r < den then q
                 else if den < 2 * r then q + 1
                 else if even q then q else q + 1)
        in if 2 ^ 1024 \<le> m * 2 ^ nat p then Infinity else Float m p)"

definition float_str :: "ucd \<Rightarrow> str \<Rightarrow> error + float" where
  "float_str db s =
     (let ip = takeWhile (\<lambda>c. c \<noteq> 46) s;
          fp = drop 1 (dropWhile (\<lambda>c. c \<noteq> 46) s)
      in if list_all (isdecimal db) (ip @ fp) \<and> 46 \<notin> set fp \<and> ip @ fp \<noteq> []
         then Inr (round_float (int_str db (ip @ fp)) (10 ^ length fp))
         else Inl ValueError)"

definition float_mul :: "float \<Rightarrow> int \<Rightarrow> float" where
  "float_mul x c =
     (case x of
        Infinity \<Rightarrow> Infinity
      | Float m p \<Rightarrow> round_float (c * m * 2 ^ nat p) (2 ^ nat (- p)))"

definition int_float :: "float \<Rightarrow> error + int" where
  "int_float x =
     (case x of
        Infinity \<Rightarrow> Inl OverflowError
      | Float m p \<Rightarrow> Inr (m * 2 ^ nat p div 2 ^ nat (- p)))"

definition seconds_to_ms :: "ucd \<Rightarrow> str \<Rightarrow> error + int" where
  "seconds_to_ms db s =
     (case float_str db s of
        Inl e \<Rightarrow> Inl e
      | Inr x \<Rightarrow> int_float (float_mul x 1000))"

subsection \<open>Regular expressions\<close>

text \<open>
  The patterns of the parser use single characters and character classes, greedy and lazy
  repetition of one character class, concatenation, alternation, groups, positive
  lookahead, \<open>\Z\<close> and \<open>$\<close>.  The matcher is the backtracking search of \<open>re\<close>: at each
  choice the alternatives are tried in the order of the pattern, and the first way to
  complete the match wins.  \<open>Rep c n greedy\<close> is \<open>c{n,}\<close> (so \<open>c*\<close>, \<open>c+\<close>), lazy when
  \<open>greedy\<close> is false.  A matcher works on the text that remains and passes what is left,
  with the groups, to its continuation.
\<close>

datatype flag = IGNORECASE | DOTALL | MULTILINE

datatype cls = Lit nat | Dot | Digit | Space | NonSpace | OneOf "cls list"

fun cls_match :: "ucd \<Rightarrow> flag list \<Rightarrow> cls \<Rightarrow> nat \<Rightarrow> bool" where
  "cls_match db fl (Lit p) c = (if IGNORECASE \<in> set fl then caseless db p c else c = p)"
| "cls_match db fl Dot c = (DOTALL \<in> set fl \<or> c \<noteq> 10)"
| "cls_match db fl Digit c = isdecimal db c"
| "cls_match db fl Space c = isspace db c"
| "cls_match db fl NonSpace c = (\<not> isspace db c)"
| "cls_match db fl (OneOf cs) c = list_ex (\<lambda>x. cls_match db fl x c) cs"

datatype rx =
    Chr cls
  | Rep cls nat bool
  | Cat rx rx
  | Alt rx rx
  | Grp nat rx
  | Ahead rx
  | EndZ
  | Eol
  | Eps

type_synonym caps = "nat \<Rightarrow> str option"
type_synonym cont = "str \<Rightarrow> caps \<Rightarrow> (str \<times> caps) option"

fun rep_greedy :: "(nat \<Rightarrow> bool) \<Rightarrow> nat \<Rightarrow> (str \<Rightarrow> 'r option) \<Rightarrow> str \<Rightarrow> 'r option" where
  "rep_greedy p n k [] = (if n = 0 then k [] else None)"
| "rep_greedy p n k (c # cs) =
     (if p c then
        (case rep_greedy p (n - 1) k cs of
           Some r \<Rightarrow> Some r
         | None \<Rightarrow> if n = 0 then k (c # cs) else None)
      else if n = 0 then k (c # cs) else None)"

fun rep_lazy :: "(nat \<Rightarrow> bool) \<Rightarrow> nat \<Rightarrow> (str \<Rightarrow> 'r option) \<Rightarrow> str \<Rightarrow> 'r option" where
  "rep_lazy p n k [] = (if n = 0 then k [] else None)"
| "rep_lazy p n k (c # cs) =
     (if n = 0 then
        (case k (c # cs) of
           Some r \<Rightarrow> Some r
         | None \<Rightarrow> if p c then rep_lazy p 0 k cs else None)
      else if p c then rep_lazy p (n - 1) k cs else None)"

fun mt :: "ucd \<Rightarrow> flag list \<Rightarrow> rx \<Rightarrow> cont \<Rightarrow> cont" where
  "mt db fl (Chr c) k s g =
     (case s of [] \<Rightarrow> None | x # xs \<Rightarrow> if cls_match db fl c x then k xs g else None)"
| "mt db fl (Rep c n greedy) k s g =
     (if greedy then rep_greedy (cls_match db fl c) n (\<lambda>s'. k s' g) s
      else rep_lazy (cls_match db fl c) n (\<lambda>s'. k s' g) s)"
| "mt db fl (Cat a b) k s g = mt db fl a (\<lambda>s' g'. mt db fl b k s' g') s g"
| "mt db fl (Alt a b) k s g =
     (case mt db fl a k s g of Some r \<Rightarrow> Some r | None \<Rightarrow> mt db fl b k s g)"
| "mt db fl (Grp i a) k s g =
     mt db fl a (\<lambda>s' g'. k s' (g'(i \<mapsto> take (length s - length s') s))) s g"
| "mt db fl (Ahead a) k s g =
     (case mt db fl a (\<lambda>s' g'. Some (s', g')) s g of
        None \<Rightarrow> None
      | Some (s', g') \<Rightarrow> k s g')"
| "mt db fl EndZ k s g = (if s = [] then k s g else None)"
| "mt db fl Eol k s g =
     (if s = [] \<or> s = [10] \<or> (MULTILINE \<in> set fl \<and> hd s = 10) then k s g else None)"
| "mt db fl Eps k s g = k s g"

text \<open>A match at the start of \<open>s\<close>: the text after the match and the groups.\<close>

definition match_at :: "ucd \<Rightarrow> flag list \<Rightarrow> rx \<Rightarrow> str \<Rightarrow> (str \<times> caps) option" where
  "match_at db fl r s = mt db fl r (\<lambda>s' g'. Some (s', g')) s Map.empty"

text \<open>The leftmost match: every start position in turn, the end of the text included.\<close>

fun scan :: "ucd \<Rightarrow> flag list \<Rightarrow> rx \<Rightarrow> str \<Rightarrow> (str \<times> caps) option" where
  "scan db fl r [] = match_at db fl r []"
| "scan db fl r (c # cs) =
     (case match_at db fl r (c # cs) of
        Some m \<Rightarrow> Some m
      | None \<Rightarrow> scan db fl r cs)"

text \<open>\<open>re.search(pattern, s, flags)\<close>: the groups of the leftmost match, or \<open>None\<close>.\<close>

definition search :: "ucd \<Rightarrow> flag list \<Rightarrow> rx \<Rightarrow> str \<Rightarrow> caps option" where
  "search db fl r s = map_option snd (scan db fl r s)"

text \<open>
  \<open>re.finditer(pattern, s, flags)\<close>: the matches from left to right, each search starting
  where the last match ended.  Every pattern that the parser iterates begins with a
  literal character, so a match is never empty and the text that remains gets shorter;
  the iteration stops if it does not.
\<close>

function finditer :: "ucd \<Rightarrow> flag list \<Rightarrow> rx \<Rightarrow> str \<Rightarrow> caps list" where
  "finditer db fl r s =
     (case scan db fl r s of
        None \<Rightarrow> []
      | Some (rest, g) \<Rightarrow>
          g # (if length rest < length s then finditer db fl r rest else []))"
  by pat_completeness auto
termination
  by (relation "measure (\<lambda>(db, fl, r, s). length s)") auto

declare finditer.simps [simp del]

text \<open>\<open>match.group(i)\<close>.  Each group of the parser's patterns takes part in every match
  of its pattern; a group that did not would read as the empty text here.\<close>

definition group :: "caps \<Rightarrow> nat \<Rightarrow> str" where
  "group g i = (case g i of None \<Rightarrow> [] | Some s \<Rightarrow> s)"

text \<open>Patterns are written with \<open>lit\<close> for a literal ASCII text, \<open>lit_str\<close> for
  \<open>re.escape\<close> of a text, and \<open>seq\<close> for a sequence.\<close>

definition lit_str :: "str \<Rightarrow> rx" where
  "lit_str s = foldr (\<lambda>c r. Cat (Chr (Lit c)) r) s Eps"

definition lit :: "string \<Rightarrow> rx" where
  "lit s = lit_str (u s)"

definition seq :: "rx list \<Rightarrow> rx" where
  "seq rs = foldr Cat rs Eps"

abbreviation star :: "cls \<Rightarrow> rx" where "star c \<equiv> Rep c 0 True"
abbreviation plus :: "cls \<Rightarrow> rx" where "plus c \<equiv> Rep c 1 True"
abbreviation star_lazy :: "cls \<Rightarrow> rx" where "star_lazy c \<equiv> Rep c 0 False"
abbreviation plus_lazy :: "cls \<Rightarrow> rx" where "plus_lazy c \<equiv> Rep c 1 False"
abbreviation opt :: "rx \<Rightarrow> rx" where "opt r \<equiv> Alt r Eps"

section \<open>parse\_test\_output.py\<close>

subsection \<open>Data\<close>

datatype Framework = JEST | VITEST | PYTEST | GO | PLAYWRIGHT | CYPRESS | UNKNOWN

fun Framework_value :: "Framework \<Rightarrow> str" where
  "Framework_value JEST = u ''jest''"
| "Framework_value VITEST = u ''vitest''"
| "Framework_value PYTEST = u ''pytest''"
| "Framework_value GO = u ''go''"
| "Framework_value PLAYWRIGHT = u ''playwright''"
| "Framework_value CYPRESS = u ''cypress''"
| "Framework_value UNKNOWN = u ''unknown''"

text \<open>\<open>Framework(value)\<close>: the member with that value; the enumeration raises
  \<open>ValueError\<close> for a text that is the value of no member.\<close>

definition Framework_of :: "str \<Rightarrow> error + Framework" where
  "Framework_of v =
     (case filter (\<lambda>fw. Framework_value fw = v)
             [JEST, VITEST, PYTEST, GO, PLAYWRIGHT, CYPRESS, UNKNOWN] of
        [] \<Rightarrow> Inl ValueError
      | fw # _ \<Rightarrow> Inr fw)"

text \<open>The member \<open>UNKNOWN\<close> of \<open>FailureType\<close> is \<open>UNKNOWN_FAILURE\<close> here, the name
  \<open>UNKNOWN\<close> being taken by \<open>Framework\<close>.\<close>

datatype FailureType =
  ASSERTION | TYPE_ERROR | TIMEOUT | MOCK_ISSUE | ENVIRONMENT | SYNTAX | UNKNOWN_FAILURE

fun FailureType_value :: "FailureType \<Rightarrow> str" where
  "FailureType_value ASSERTION = u ''assertion''"
| "FailureType_value TYPE_ERROR = u ''type_error''"
| "FailureType_value TIMEOUT = u ''timeout''"
| "FailureType_value MOCK_ISSUE = u ''mock_issue''"
| "FailureType_value ENVIRONMENT = u ''environment''"
| "FailureType_value SYNTAX = u ''syntax''"
| "FailureType_value UNKNOWN_FAILURE = u ''unknown''"

record FailedTest =
  "file" :: str
  test_name :: str
  error_message :: str
  line_number :: "int option"
  failure_type :: str
  stack_trace :: "str option"
  rerun_command :: "str option"

record TestResult =
  framework :: str
  total :: int
  passed :: int
  failed :: int
  skipped :: int
  duration_ms :: "int option"
  failures :: "FailedTest list"

subsection \<open>detect\_framework\<close>

text \<open>The dictionary \<open>patterns\<close>, in the order of its keys.  The symbols are U+2713
  (10003), U+00D7 (215) and U+2715 (10005).\<close>

definition patterns :: "(Framework \<times> rx list) list" where
  "patterns =
     [(JEST,
        [Alt (lit ''PASS'') (seq [lit ''FAIL'', star Dot, lit ''.test.'']),
         lit ''Jest'',
         lit ''expect('']),
      (VITEST,
        [lit ''vitest'',
         Alt (Chr (Lit 10003)) (seq [Chr (Lit 215), star Dot, plus Digit, lit ''ms'']),
         lit ''RERUN'']),
      (PYTEST,
        [lit ''pytest'',
         Alt (lit ''PASSED'') (Alt (lit ''FAILED'') (lit ''ERROR'')),
         seq [lit ''==='', star Dot, lit ''==='']]),
      (GO,
        [Alt (lit ''--- FAIL:'') (lit ''--- PASS:''),
         lit ''go test'',
         seq [lit ''FAIL'', plus Space, plus NonSpace, plus Space, plus Digit, lit ''.'',
              plus Digit, lit ''s'']]),
      (PLAYWRIGHT,
        [lit ''playwright'',
         seq [plus Digit, lit '' passed'', star Dot, plus Digit, lit '' failed''],
         lit ''browserType'']),
      (CYPRESS,
        [lit ''cypress'',
         seq [lit ''Running:'', star Dot, lit ''.cy.''],
         Alt (Chr (Lit 10003)) (Chr (Lit 10005))])]"

text \<open>\<open>sum(1 for p in pats if re.search(p, output, re.IGNORECASE))\<close>\<close>

definition matches :: "ucd \<Rightarrow> rx list \<Rightarrow> str \<Rightarrow> nat" where
  "matches db pats output =
     length (filter (\<lambda>p. search db [IGNORECASE] p output \<noteq> None) pats)"

fun detect_loop :: "ucd \<Rightarrow> (Framework \<times> rx list) list \<Rightarrow> str \<Rightarrow> Framework" where
  "detect_loop db [] output = UNKNOWN"
| "detect_loop db ((fw, pats) # rest) output =
     (if matches db pats output \<ge> 2 then fw else detect_loop db rest output)"

definition detect_framework :: "ucd \<Rightarrow> str \<Rightarrow> Framework" where
  "detect_framework db output = detect_loop db patterns output"

subsection \<open>classify\_failure\<close>

definition assertion_keywords :: "str list" where
  "assertion_keywords =
     [u ''expected'', u ''to equal'', u ''to be'', u ''assertion'', u ''assert'']"

definition type_error_keywords :: "str list" where
  "type_error_keywords =
     [u ''typeerror'', u ''undefined is not'', u ''null is not'', u ''cannot read'']"

definition timeout_keywords :: "str list" where
  "timeout_keywords = [u ''timeout'', u ''exceeded'', u ''timed out'']"

definition mock_keywords :: "str list" where
  "mock_keywords = [u ''mock'', u ''spy'', u ''stub'', u ''not called'']"

definition environment_keywords :: "str list" where
  "environment_keywords =
     [u ''enoent'', u ''connection refused'', u ''econnrefused'', u ''env'']"

definition syntax_keywords :: "str list" where
  "syntax_keywords = [u ''syntaxerror'', u ''unexpected token'']"

text \<open>\<open>any(kw in error_lower for kw in kws)\<close>\<close>

definition any_in :: "str list \<Rightarrow> str \<Rightarrow> bool" where
  "any_in kws error_lower = list_ex (\<lambda>kw. contains error_lower kw) kws"

definition classify_failure :: "ucd \<Rightarrow> str \<Rightarrow> FailureType" where
  "classify_failure db error_message' =
     (let error_lower = lower db error_message' in
      if any_in assertion_keywords error_lower then ASSERTION
      else if any_in type_error_keywords error_lower then TYPE_ERROR
      else if any_in timeout_keywords error_lower then TIMEOUT
      else if any_in mock_keywords error_lower then MOCK_ISSUE
      else if any_in environment_keywords error_lower then ENVIRONMENT
      else if any_in syntax_keywords error_lower then SYNTAX
      else UNKNOWN_FAILURE)"

subsection \<open>Duration\<close>

text \<open>\<open>int(float(duration_match.group(1)) * 1000) if duration_match else None\<close>\<close>

definition duration_of :: "ucd \<Rightarrow> caps option \<Rightarrow> error + int option" where
  "duration_of db duration_match =
     (case duration_match of
        None \<Rightarrow> Inr None
      | Some g \<Rightarrow>
          (case seconds_to_ms db (group g 1) of
             Inl e \<Rightarrow> Inl e
           | Inr ms \<Rightarrow> Inr (Some ms)))"

subsection \<open>parse\_jest\<close>

text \<open>The symbols of the test pattern are U+00D7 (215), U+2715 (10005) and U+25CF
  (9679).\<close>

definition jest_fail_pattern :: rx where
  "jest_fail_pattern =
     seq [lit ''FAIL'', plus Space, Grp 1 (plus NonSpace), Chr (Lit 10),
          Grp 2 (star_lazy Dot),
          Ahead (Alt (Cat (Chr (Lit 10))
                        (Alt (lit ''PASS'') (Alt (lit ''FAIL'') (lit ''Test Suites:''))))
                     EndZ)]"

definition jest_test_pattern :: rx where
  "jest_test_pattern =
     seq [Chr (OneOf [Lit 215, Lit 10005]), plus Space, Grp 1 (plus_lazy Dot), plus Space,
          lit ''('', Grp 2 (plus Digit), star Space, lit ''ms)'', Chr (Lit 10),
          Grp 3 (star_lazy Dot),
          Ahead (Alt (seq [Chr (Lit 10), star Space,
                           Chr (OneOf [Lit 215, Lit 10005, Lit 9679])])
                     EndZ)]"

definition jest_line_pattern :: rx where
  "jest_line_pattern = seq [lit '':'', Grp 1 (plus Digit), lit '':'', plus Digit]"

definition jest_summary_pattern :: rx where
  "jest_summary_pattern =
     seq [lit ''Tests:'', plus Space, Grp 1 (plus Digit), plus Space, lit ''failed'',
          star_lazy Dot, Grp 2 (plus Digit), plus Space, lit ''passed'',
          star_lazy Dot, Grp 3 (plus Digit), plus Space, lit ''total'']"

definition jest_total_pattern :: rx where
  "jest_total_pattern =
     seq [Grp 1 (plus Digit), plus Space,
          Alt (Cat (lit ''test'') (opt (lit ''s''))) (Cat (lit ''spec'') (opt (lit ''s'')))]"

definition jest_duration_pattern :: rx where
  "jest_duration_pattern =
     seq [lit ''Time:'', plus Space, Grp 1 (plus (OneOf [Digit, Lit 46])), star Space,
          lit ''s'']"

text \<open>The body of the inner loop: one failure of the block of \<open>file_path\<close>.\<close>

definition jest_failure :: "ucd \<Rightarrow> str \<Rightarrow> caps \<Rightarrow> FailedTest" where
  "jest_failure db file_path test_match =
     (let test_name' = strip db (group test_match 1);
          error_block = strip db (group test_match 3);
          error_lines = split_on 10 error_block;
          error_message' = (case error_lines of [] \<Rightarrow> u ''Unknown error'' | l # _ \<Rightarrow> l);
          line_match = search db [] jest_line_pattern error_block;
          line_number' = (case line_match of
                            None \<Rightarrow> None
                          | Some g \<Rightarrow> Some (int_str db (group g 1)))
      in \<lparr>file = file_path, test_name = test_name', error_message = error_message',
          line_number = line_number',
          failure_type = FailureType_value (classify_failure db error_message'),
          stack_trace = None,
          rerun_command =
            Some (u ''npx jest --testNamePattern='' @ [dquote] @ test_name' @ [dquote])\<rparr>)"

definition jest_failures :: "ucd \<Rightarrow> str \<Rightarrow> FailedTest list" where
  "jest_failures db output =
     concat (map (\<lambda>m. map (jest_failure db (group m 1))
                         (finditer db [DOTALL] jest_test_pattern (group m 2)))
                 (finditer db [DOTALL] jest_fail_pattern output))"

definition parse_jest :: "ucd \<Rightarrow> str \<Rightarrow> error + TestResult" where
  "parse_jest db output =
     (let fs = jest_failures db output;
          summary_match = search db [IGNORECASE] jest_summary_pattern output;
          (total', passed', failed') =
            (case summary_match of
               Some g \<Rightarrow>
                 (int_str db (group g 3), int_str db (group g 2), int_str db (group g 1))
             | None \<Rightarrow>
                 (let total_match = search db [IGNORECASE] jest_total_pattern output;
                      total' = (case total_match of
                                  Some g \<Rightarrow> int_str db (group g 1)
                                | None \<Rightarrow> int (length fs));
                      failed' = int (length fs);
                      passed' = total' - failed'
                  in (total', passed', failed')));
          duration_match = search db [] jest_duration_pattern output
      in case duration_of db duration_match of
           Inl e \<Rightarrow> Inl e
         | Inr duration_ms' \<Rightarrow>
             Inr \<lparr>framework = u ''jest'', total = total', passed = passed', failed = failed',
                  skipped = 0, duration_ms = duration_ms', failures = fs\<rparr>)"

subsection \<open>parse\_pytest\<close>

definition pytest_fail_pattern :: rx where
  "pytest_fail_pattern =
     seq [lit ''FAILED'', plus Space, Grp 1 (plus NonSpace), lit ''::'', Grp 2 (plus NonSpace)]"

definition pytest_error_pattern :: "str \<Rightarrow> rx" where
  "pytest_error_pattern test_name' =
     seq [lit_str test_name', star_lazy Dot, Chr (Lit 10), Grp 1 (star_lazy Dot),
          Ahead (Alt (Cat (Chr (Lit 10))
                        (Alt (lit ''FAILED'') (Alt (lit ''PASSED'') (lit ''=====''))))
                     EndZ)]"

definition pytest_summary_pattern :: rx where
  "pytest_summary_pattern =
     seq [Grp 1 (plus Digit), plus Space, lit ''failed'', star_lazy Dot,
          Grp 2 (plus Digit), plus Space, lit ''passed'']"

definition passed_pattern :: rx where
  "passed_pattern = seq [Grp 1 (plus Digit), plus Space, lit ''passed'']"

definition skipped_pattern :: rx where
  "skipped_pattern = seq [Grp 1 (plus Digit), plus Space, lit ''skipped'']"

definition pytest_duration_pattern :: rx where
  "pytest_duration_pattern =
     seq [lit ''in'', plus Space, Grp 1 (plus (OneOf [Digit, Lit 46])), lit ''s'']"

definition pytest_failure :: "ucd \<Rightarrow> str \<Rightarrow> caps \<Rightarrow> FailedTest" where
  "pytest_failure db output m =
     (let file_path = group m 1;
          test_name' = group m 2;
          error_match = search db [DOTALL] (pytest_error_pattern test_name') output;
          error_message' = (case error_match of
                              Some g \<Rightarrow> take 200 (strip db (group g 1))
                            | None \<Rightarrow> u ''Unknown error'')
      in \<lparr>file = file_path, test_name = test_name', error_message = error_message',
          line_number = None,
          failure_type = FailureType_value (classify_failure db error_message'),
          stack_trace = None,
          rerun_command = Some (u ''pytest '' @ file_path @ u ''::'' @ test_name')\<rparr>)"

definition pytest_failures :: "ucd \<Rightarrow> str \<Rightarrow> FailedTest list" where
  "pytest_failures db output =
     map (pytest_failure db output) (finditer db [] pytest_fail_pattern output)"

definition parse_pytest :: "ucd \<Rightarrow> str \<Rightarrow> error + TestResult" where
  "parse_pytest db output =
     (let fs = pytest_failures db output;
          summary_match = search db [IGNORECASE] pytest_summary_pattern output;
          (failed', passed') =
            (case summary_match of
               Some g \<Rightarrow> (int_str db (group g 1), int_str db (group g 2))
             | None \<Rightarrow>
                 (let failed' = int (length fs);
                      passed_match = search db [] passed_pattern output;
                      passed' = (case passed_match of
                                   Some g \<Rightarrow> int_str db (group g 1)
                                 | None \<Rightarrow> 0)
                  in (failed', passed')));
          skipped_match = search db [] skipped_pattern output;
          skipped' = (case skipped_match of Some g \<Rightarrow> int_str db (group g 1) | None \<Rightarrow> 0);
          total' = passed' + failed' + skipped';
          duration_match = search db [] pytest_duration_pattern output
      in case duration_of db duration_match of
           Inl e \<Rightarrow> Inl e
         | Inr duration_ms' \<Rightarrow>
             Inr \<lparr>framework = u ''pytest'', total = total', passed = passed',
                  failed = failed', skipped = skipped', duration_ms = duration_ms',
                  failures = fs\<rparr>)"

subsection \<open>parse\_go\<close>

definition go_fail_pattern :: rx where
  "go_fail_pattern =
     seq [lit ''--- FAIL:'', plus Space, Grp 1 (plus NonSpace), plus Space, lit ''('',
          Grp 2 (plus (OneOf [Digit, Lit 46])), lit ''s)'', Chr (Lit 10),
          Grp 3 (star_lazy Dot),
          Ahead (Alt (seq [Chr (Lit 10), lit ''--- ''])
                (Alt (seq [Chr (Lit 10), lit ''FAIL'', Chr Space])
                (Alt (seq [Chr (Lit 10), lit ''ok'', Chr Space])
                     EndZ)))]"

definition go_loc_pattern :: rx where
  "go_loc_pattern =
     seq [Grp 1 (Cat (plus NonSpace) (lit ''.go'')), lit '':'', Grp 2 (plus Digit)]"

definition go_pass_pattern :: rx where
  "go_pass_pattern = lit ''--- PASS:''"

definition go_duration_pattern :: rx where
  "go_duration_pattern = seq [Grp 1 (plus (OneOf [Digit, Lit 46])), lit ''s'', star Space, Eol]"

definition go_failure :: "ucd \<Rightarrow> caps \<Rightarrow> FailedTest" where
  "go_failure db m =
     (let test_name' = group m 1;
          error_block = strip db (group m 3);
          loc_match = search db [] go_loc_pattern error_block;
          file_path = (case loc_match of Some g \<Rightarrow> group g 1 | None \<Rightarrow> u ''unknown'');
          line_number' = (case loc_match of
                            Some g \<Rightarrow> Some (int_str db (group g 2))
                          | None \<Rightarrow> None);
          error_lines = map (strip db)
                          (filter (\<lambda>l. strip db l \<noteq> []) (split_on 10 error_block));
          error_message' = (case error_lines of [] \<Rightarrow> u ''Unknown error'' | l # _ \<Rightarrow> l)
      in \<lparr>file = file_path, test_name = test_name', error_message = error_message',
          line_number = line_number',
          failure_type = FailureType_value (classify_failure db error_message'),
          stack_trace = None,
          rerun_command = Some (u ''go test -run '' @ test_name' @ u '' ./...'')\<rparr>)"

definition go_failures :: "ucd \<Rightarrow> str \<Rightarrow> FailedTest list" where
  "go_failures db output = map (go_failure db) (finditer db [DOTALL] go_fail_pattern output)"

definition parse_go :: "ucd \<Rightarrow> str \<Rightarrow> error + TestResult" where
  "parse_go db output =
     (let fs = go_failures db output;
          pass_count = int (length (finditer db [] go_pass_pattern output));
          fail_count = int (length fs);
          total' = pass_count + fail_count;
          duration_match = search db [MULTILINE] go_duration_pattern output
      in case duration_of db duration_match of
           Inl e \<Rightarrow> Inl e
         | Inr duration_ms' \<Rightarrow>
             Inr \<lparr>framework = u ''go'', total = total', passed = pass_count,
                  failed = fail_count, skipped = 0, duration_ms = duration_ms',
                  failures = fs\<rparr>)"

subsection \<open>parse\_playwright\<close>

text \<open>The symbol of the pattern is U+203A (8250).\<close>

definition playwright_fail_pattern :: rx where
  "playwright_fail_pattern =
     seq [Grp 1 (plus Digit), lit '')'', plus Space, lit ''['', star_lazy Dot, lit '']'',
          plus Space, Chr (Lit 8250), plus Space, Grp 2 (plus NonSpace), lit '':'',
          Grp 3 (plus Digit), lit '':'', plus Digit, plus Space, Chr (Lit 8250), plus Space,
          Grp 4 (plus_lazy Dot), Chr (Lit 10), Grp 5 (star_lazy Dot),
          Ahead (Alt (seq [Chr (Lit 10), plus Digit, lit '')''])
                (Alt (seq [Chr (Lit 10), plus Space, plus Digit, lit '' passed''])
                     EndZ))]"

definition playwright_summary_pattern :: rx where
  "playwright_summary_pattern =
     seq [Grp 1 (plus Digit), plus Space, lit ''passed'', star_lazy Dot,
          Grp 2 (plus Digit), plus Space, lit ''failed'']"

definition playwright_failure :: "ucd \<Rightarrow> caps \<Rightarrow> FailedTest" where
  "playwright_failure db m =
     (let file_path = group m 2;
          line_number' = int_str db (group m 3);
          test_name' = strip db (group m 4);
          error_block = strip db (group m 5);
          error_lines = split_on 10 error_block;
          error_message' = (case filter (\<lambda>l. strip db l \<noteq> []) error_lines of
                              [] \<Rightarrow> u ''Unknown error''
                            | l # _ \<Rightarrow> strip db l)
      in \<lparr>file = file_path, test_name = test_name',
          error_message = take 200 error_message',
          line_number = Some line_number',
          failure_type = FailureType_value (classify_failure db error_message'),
          stack_trace = None,
          rerun_command =
            Some (u ''npx playwright test '' @ file_path @ u '':'' @ str_int line_number')\<rparr>)"

definition playwright_failures :: "ucd \<Rightarrow> str \<Rightarrow> FailedTest list" where
  "playwright_failures db output =
     map (playwright_failure db) (finditer db [DOTALL] playwright_fail_pattern output)"

definition parse_playwright :: "ucd \<Rightarrow> str \<Rightarrow> error + TestResult" where
  "parse_playwright db output =
     (let fs = playwright_failures db output;
          summary_match = search db [] playwright_summary_pattern output;
          (passed', failed') =
            (case summary_match of
               Some g \<Rightarrow> (int_str db (group g 1), int_str db (group g 2))
             | None \<Rightarrow>
                 (let failed' = int (length fs);
                      passed_match = search db [] passed_pattern output;
                      passed' = (case passed_match of
                                   Some g \<Rightarrow> int_str db (group g 1)
                                 | None \<Rightarrow> 0)
                  in (passed', failed')));
          total' = passed' + failed'
      in Inr \<lparr>framework = u ''playwright'', total = total', passed = passed',
              failed = failed', skipped = 0, duration_ms = None, failures = fs\<rparr>)"

subsection \<open>parse\_output\<close>

text \<open>The dictionary \<open>parsers\<close> with its default: \<open>parsers.get(fw, parse_jest)\<close>.\<close>

fun parsers_get :: "Framework \<Rightarrow> ucd \<Rightarrow> str \<Rightarrow> error + TestResult" where
  "parsers_get JEST = parse_jest"
| "parsers_get VITEST = parse_jest"
| "parsers_get PYTEST = parse_pytest"
| "parsers_get GO = parse_go"
| "parsers_get PLAYWRIGHT = parse_playwright"
| "parsers_get CYPRESS = parse_jest"
| "parsers_get UNKNOWN = parse_jest"

text \<open>The override is an optional text; \<open>if framework:\<close> is false for \<open>None\<close> and for the
  empty text.\<close>

definition parse_output :: "ucd \<Rightarrow> str \<Rightarrow> str option \<Rightarrow> error + TestResult" where
  "parse_output db output framework' =
     (case (case framework' of
              None \<Rightarrow> Inr (detect_framework db output)
            | Some v \<Rightarrow> if v \<noteq> [] then Framework_of v
                        else Inr (detect_framework db output)) of
        Inl e \<Rightarrow> Inl e
      | Inr fw \<Rightarrow>
          (case parsers_get fw db output of
             Inl e \<Rightarrow> Inl e
           | Inr result \<Rightarrow>
               Inr (if fw \<noteq> UNKNOWN then result\<lparr>framework := Framework_value fw\<rparr>
                    else result)))"

section \<open>Properties of the remaining-set generator\<close>

lemma slice_from_in_range:
  "0 \<le> i \<Longrightarrow> i \<le> int (length xs) \<Longrightarrow> slice_from i xs = drop (nat i) xs"
  by (simp add: slice_from_def Let_def min_def)

lemma remaining_tests_suffix:
  assumes "0 \<le> i" and "i < int (length (tests tlist))"
  shows "remaining_tests (generate_remaining_tests tlist i) = drop (nat i + 1) (tests tlist)"
proof -
  have "slice_from (i + 1) (tests tlist) = drop (nat (i + 1)) (tests tlist)"
    using assms by (intro slice_from_in_range) auto
  moreover have "nat (i + 1) = nat i + 1"
    using assms by simp
  ultimately show ?thesis
    by (simp add: generate_remaining_tests_def Let_def)
qed

lemma remaining_count_length:
  "remaining_count (generate_remaining_tests tlist i)
     = int (length (remaining_tests (generate_remaining_tests tlist i)))"
  by (simp add: generate_remaining_tests_def Let_def)

lemma remaining_command:
  "run_remaining_command (generate_remaining_tests tlist i) =
     (let rest = remaining_tests (generate_remaining_tests tlist i);
          ids = map item_id rest;
          fw = list_framework tlist
      in if rest = [] then None
         else if fw = u ''jest'' then Some (u ''npx jest '' @ join (u '' '') ids)
         else if fw = u ''vitest'' then Some (u ''npx vitest '' @ join (u '' '') ids)
         else if fw = u ''pytest'' then Some (u ''pytest '' @ join (u '' '') ids)
         else if fw = u ''go'' then
           Some (u ''go test -run '' @ [squote] @ join (u ''|'') ids @ [squote] @ u '' ./...'')
         else if fw = u ''playwright'' then
           Some (u ''npx playwright test '' @ join (u '' '') ids)
         else None)"
  by (simp add: generate_remaining_tests_def Let_def u_def)

text \<open>
  Claim C5.  For a test list and an index \<open>i\<close> with \<open>0 \<le> i < length tests\<close>, the
  generator returns exactly the suffix of \<open>tests\<close> that starts at index \<open>i + 1\<close>, in
  order, and the count is the length of that suffix.  When the suffix is empty the count
  is 0 and there is no command.  When the suffix is not empty, an unrecognised framework
  tag gives no command (count and items are still reported), and a recognised tag gives
  the command that joins exactly the ids of the remaining items: with spaces after
  \<open>npx jest\<close>, \<open>npx vitest\<close>, \<open>pytest\<close> and \<open>npx playwright test\<close>, and with \<open>|\<close>
  inside the quoted pattern of \<open>go test -run '...' ./...\<close>.
\<close>

theorem generate_remaining_tests_suffix:
  assumes "0 \<le> i" and "i < int (length (tests tlist))"
  defines "r \<equiv> generate_remaining_tests tlist i"
    and "rest \<equiv> drop (nat i + 1) (tests tlist)"
    and "fw \<equiv> list_framework tlist"
  shows "remaining_tests r = rest
    \<and> remaining_count r = int (length rest)
    \<and> (rest = [] \<longrightarrow> remaining_count r = 0 \<and> run_remaining_command r = None)
    \<and> (rest \<noteq> [] \<and> fw \<notin> {u ''jest'', u ''vitest'', u ''pytest'', u ''go'', u ''playwright''}
          \<longrightarrow> run_remaining_command r = None)
    \<and> (rest \<noteq> [] \<and> fw = u ''jest'' \<longrightarrow>
          run_remaining_command r = Some (u ''npx jest '' @ join (u '' '') (map item_id rest)))
    \<and> (rest \<noteq> [] \<and> fw = u ''vitest'' \<longrightarrow>
          run_remaining_command r = Some (u ''npx vitest '' @ join (u '' '') (map item_id rest)))
    \<and> (rest \<noteq> [] \<and> fw = u ''pytest'' \<longrightarrow>
          run_remaining_command r = Some (u ''pytest '' @ join (u '' '') (map item_id rest)))
    \<and> (rest \<noteq> [] \<and> fw = u ''playwright'' \<longrightarrow>
          run_remaining_command r
            = Some (u ''npx playwright test '' @ join (u '' '') (map item_id rest)))
    \<and> (rest \<noteq> [] \<and> fw = u ''go'' \<longrightarrow>
          run_remaining_command r
            = Some (u ''go test -run '' @ [squote] @ join (u ''|'') (map item_id rest)
                    @ [squote] @ u '' ./...''))"
proof -
  have rest: "remaining_tests r = rest"
    unfolding r_def rest_def using assms(1,2) by (rule remaining_tests_suffix)
  have cnt: "remaining_count r = int (length rest)"
    using rest remaining_count_length [of tlist i] by (simp add: r_def)
  have cmd: "run_remaining_command r =
     (if rest = [] then None
      else if fw = u ''jest'' then Some (u ''npx jest '' @ join (u '' '') (map item_id rest))
      else if fw = u ''vitest'' then Some (u ''npx vitest '' @ join (u '' '') (map item_id rest))
      else if fw = u ''pytest'' then Some (u ''pytest '' @ join (u '' '') (map item_id rest))
      else if fw = u ''go'' then
        Some (u ''go test -run '' @ [squote] @ join (u ''|'') (map item_id rest)
              @ [squote] @ u '' ./...'')
      else if fw = u ''playwright'' then
        Some (u ''npx playwright test '' @ join (u '' '') (map item_id rest))
      else None)"
    using remaining_command [of tlist i] rest by (simp add: r_def fw_def Let_def)
  have distinct_tags:
    "u ''vitest'' \<noteq> u ''jest''" "u ''pytest'' \<noteq> u ''jest''" "u ''pytest'' \<noteq> u ''vitest''"
    "u ''go'' \<noteq> u ''jest''" "u ''go'' \<noteq> u ''vitest''" "u ''go'' \<noteq> u ''pytest''"
    "u ''playwright'' \<noteq> u ''jest''" "u ''playwright'' \<noteq> u ''vitest''"
    "u ''playwright'' \<noteq> u ''pytest''" "u ''playwright'' \<noteq> u ''go''"
    by (simp_all add: u_def)
  show ?thesis
    using rest cnt cmd distinct_tags by simp
qed

text \<open>The example of the specification: five items and the failure at index 2 leave the
  items at indices 3 and 4.\<close>

definition item :: "string \<Rightarrow> TestItem" where
  "item s = \<lparr>item_id = u s, item_name = u s, item_file = u s, item_line = None,
             item_suite = None\<rparr>"

definition five_tests :: TestList where
  "five_tests =
     \<lparr>list_framework = u ''pytest'', list_total = 5,
      tests = [item ''a'', item ''b'', item ''c'', item ''d'', item ''e''],
      run_single_command = u ''pytest {test_id}'', run_from_command = u ''pytest {test_id}'',
      bail_command = u ''pytest -x''\<rparr>"

theorem generate_remaining_tests_suffix_witness:
  "(0::int) \<le> 2 \<and> 2 < int (length (tests five_tests))
   \<and> remaining_tests (generate_remaining_tests five_tests 2) = [item ''d'', item ''e'']
   \<and> remaining_count (generate_remaining_tests five_tests 2) = 2
   \<and> run_remaining_command (generate_remaining_tests five_tests 2) = Some (u ''pytest d e'')"
proof -
  have h: "(0::int) \<le> 2" "2 < int (length (tests five_tests))"
    by (simp_all add: five_tests_def)
  have d: "drop (nat 2 + 1) (tests five_tests) = [item ''d'', item ''e'']"
    by (simp add: five_tests_def)
  have f: "list_framework five_tests = u ''pytest''"
    by (simp add: five_tests_def)
  have j: "u ''pytest '' @ join (u '' '') (map item_id [item ''d'', item ''e'']) = u ''pytest d e''"
    by (simp add: item_def u_def)
  show ?thesis
    using h generate_remaining_tests_suffix [OF h] unfolding d f j by simp
qed

end
